theory Spec2Isabelle
  imports Main "HOL-Library.AList"
begin

section \<open>JSON values and JavaScript truthiness\<close>

text \<open>
  The request body is whatever the JSON body parser produced. Numbers are kept as
  integers: the controller only ever tests a number for being zero.
\<close>

datatype json =
    JNull
  | JBool bool
  | JNum int
  | JStr string
  | JArr "json list"
  | JObj "(string \<times> json) list"

text \<open>\<open>if (v)\<close> on a JSON value: null, false, 0 and the empty string are falsy,
  every array and every object is truthy.\<close>

fun truthy_json :: "json \<Rightarrow> bool" where
  "truthy_json JNull = False"
| "truthy_json (JBool b) = b"
| "truthy_json (JNum n) = (n \<noteq> 0)"
| "truthy_json (JStr s) = (s \<noteq> [])"
| "truthy_json (JArr xs) = True"
| "truthy_json (JObj kvs) = True"

text \<open>Own property \<open>id\<close> of a value: only an object can carry one.\<close>

fun has_id :: "json \<Rightarrow> bool" where
  "has_id (JObj kvs) = (map_of kvs ''id'' \<noteq> None)"
| "has_id _ = False"

section \<open>Errors, promises and the values that flow through a chain\<close>

text \<open>
  \<open>TypeError\<close> is what the JavaScript runtime raises on a property access or a method
  call on null; \<open>LibError\<close> is any error object raised by a collaborator (a rejected
  data-access call, an exception of the patch library).
\<close>

datatype err = TypeError | LibError string

datatype 'a promise = Resolved 'a | Rejected err

text \<open>
  The entity is opaque to the controller (type \<open>'e\<close>): it is fetched, tested for
  presence, handed to the patch library, saved, destroyed and serialised, never
  inspected. \<open>Res\<close> is the response object, which \<open>res.status(..).json(..)\<close> returns.
\<close>

datatype 'e val = Undefined | Null | Entity 'e | Entities "'e list" | Res

fun truthy :: "'e val \<Rightarrow> bool" where
  "truthy Undefined = False"
| "truthy Null = False"
| "truthy (Entity e) = True"
| "truthy (Entities es) = True"
| "truthy Res = True"

text \<open>A fetched entity or null, as a chain value.\<close>

fun of_entity :: "'e option \<Rightarrow> 'e val" where
  "of_entity None = Null"
| "of_entity (Some e) = Entity e"

section \<open>The request, the response sink and the collaborators\<close>

record request =
  params_id :: string
  body :: json

text \<open>What one write on \<open>res\<close> carries: \<open>.end()\<close>, \<open>.json(v)\<close> or \<open>.send(err)\<close>.\<close>

datatype 'e payload = End | Json "'e val" | Send err

text \<open>The data-access calls the controller issues, with their arguments.\<close>

datatype 'e dbcall =
    Call_findAll
  | Call_find string
  | Call_create json
  | Call_upsert json string
  | Call_save 'e
  | Call_destroy 'e

text \<open>
  The state one request runs in: the backing store \<open>db\<close>, every write issued on the
  response in order (\<open>sent\<close>), every data-access call issued with the error it was
  rejected with, if any (\<open>calls\<close>), and every invocation of the patch library with its
  document and patch sequence (\<open>applied\<close>). \<open>sent\<close> records what the controller asks of
  \<open>res\<close>, one entry per \<open>res.status(..)\<close> chain, also when an earlier write has
  already ended the response.
\<close>

record ('s, 'e) world =
  db :: 's
  sent :: "(nat \<times> 'e payload) list"
  calls :: "('e dbcall \<times> err option) list"
  applied :: "('e option \<times> json) list"

definition request_start :: "'s \<Rightarrow> ('s, 'e) world" where
  "request_start s = \<lparr>db = s, sent = [], calls = [], applied = []\<rparr>"

text \<open>
  Modelled from the spec: the data-access collaborator \<open>Property\<close> is imported from
  \<open>../../sqldb\<close>, which is not part of the sources. Its capability set is the one of the
  spec (section 6): \<open>findAll() -> sequence<Entity>\<close>, \<open>find({where:{id}}) -> Entity |
  absent\<close>, \<open>create(fields) -> Entity\<close>, \<open>upsert(fields, {where:{id}}) -> Entity\<close>, and on
  an entity \<open>save() -> Entity\<close> and \<open>destroy() -> void\<close>. Every call may reject
  (\<open>Inl\<close>); the two reads leave the store as it is.
\<close>

record ('s, 'e) sqldb =
  db_findAll :: "'s \<Rightarrow> err + 'e list"
  db_find :: "string \<Rightarrow> 's \<Rightarrow> err + 'e option"
  db_create :: "json \<Rightarrow> 's \<Rightarrow> (err + 'e) \<times> 's"
  db_upsert :: "json \<Rightarrow> string \<Rightarrow> 's \<Rightarrow> (err + 'e) \<times> 's"
  db_save :: "'e \<Rightarrow> 's \<Rightarrow> (err + 'e) \<times> 's"
  db_destroy :: "'e \<Rightarrow> 's \<Rightarrow> err option \<times> 's"

text \<open>
  Modelled from the spec: the patch library \<open>fast-json-patch\<close> is a third-party module,
  not part of the sources. \<open>jp_apply\<close> is \<open>jsonpatch.apply(entity, patches, true)\<close> on an
  entity: it throws (\<open>Inl\<close>) or leaves the entity mutated (\<open>Inr\<close>). \<open>jp_apply_null\<close> is
  the same call on null, which has nothing to mutate: the error it throws, if any.
\<close>

record 'e jsonpatch =
  jp_apply :: "'e \<Rightarrow> json \<Rightarrow> err + 'e"
  jp_apply_null :: "json \<Rightarrow> err option"

section \<open>Promise chaining and the logged collaborator calls\<close>

text \<open>\<open>p.then(f)\<close>: \<open>f\<close> runs on a resolved value, a rejection passes through.\<close>

definition promise_then ::
  "'a promise \<times> 'w \<Rightarrow> ('a \<Rightarrow> 'w \<Rightarrow> 'b promise \<times> 'w) \<Rightarrow> 'b promise \<times> 'w" where
  "promise_then p f = (case p of (Resolved v, w) \<Rightarrow> f v w | (Rejected e, w) \<Rightarrow> (Rejected e, w))"

text \<open>\<open>p.catch(h)\<close>: \<open>h\<close> runs on a rejection, a resolved value passes through.\<close>

definition promise_catch ::
  "'a promise \<times> 'w \<Rightarrow> (err \<Rightarrow> 'w \<Rightarrow> 'a promise \<times> 'w) \<Rightarrow> 'a promise \<times> 'w" where
  "promise_catch p h = (case p of (Resolved v, w) \<Rightarrow> (Resolved v, w) | (Rejected e, w) \<Rightarrow> h e w)"

definition res_write :: "nat \<Rightarrow> 'e payload \<Rightarrow> ('s, 'e) world \<Rightarrow> ('s, 'e) world" where
  "res_write statusCode b w = w\<lparr>sent := sent w @ [(statusCode, b)]\<rparr>"

definition logged :: "'e dbcall \<Rightarrow> err option \<Rightarrow> ('s, 'e) world \<Rightarrow> ('s, 'e) world" where
  "logged c r w = w\<lparr>calls := calls w @ [(c, r)]\<rparr>"

definition Property_findAll ::
  "('s, 'e) sqldb \<Rightarrow> ('s, 'e) world \<Rightarrow> 'e val promise \<times> ('s, 'e) world" where
  "Property_findAll P w =
     (case db_findAll P (db w) of
        Inl e \<Rightarrow> (Rejected e, logged Call_findAll (Some e) w)
      | Inr es \<Rightarrow> (Resolved (Entities es), logged Call_findAll None w))"

definition Property_find ::
  "('s, 'e) sqldb \<Rightarrow> string \<Rightarrow> ('s, 'e) world \<Rightarrow> 'e option promise \<times> ('s, 'e) world" where
  "Property_find P i w =
     (case db_find P i (db w) of
        Inl e \<Rightarrow> (Rejected e, logged (Call_find i) (Some e) w)
      | Inr r \<Rightarrow> (Resolved r, logged (Call_find i) None w))"

definition Property_create ::
  "('s, 'e) sqldb \<Rightarrow> json \<Rightarrow> ('s, 'e) world \<Rightarrow> 'e val promise \<times> ('s, 'e) world" where
  "Property_create P b w =
     (case db_create P b (db w) of
        (Inl e, s) \<Rightarrow> (Rejected e, logged (Call_create b) (Some e) (w\<lparr>db := s\<rparr>))
      | (Inr x, s) \<Rightarrow> (Resolved (Entity x), logged (Call_create b) None (w\<lparr>db := s\<rparr>)))"

definition Property_upsert ::
  "('s, 'e) sqldb \<Rightarrow> json \<Rightarrow> string \<Rightarrow> ('s, 'e) world \<Rightarrow> 'e val promise \<times> ('s, 'e) world" where
  "Property_upsert P b i w =
     (case db_upsert P b i (db w) of
        (Inl e, s) \<Rightarrow> (Rejected e, logged (Call_upsert b i) (Some e) (w\<lparr>db := s\<rparr>))
      | (Inr x, s) \<Rightarrow> (Resolved (Entity x), logged (Call_upsert b i) None (w\<lparr>db := s\<rparr>)))"

definition entity_save ::
  "('s, 'e) sqldb \<Rightarrow> 'e \<Rightarrow> ('s, 'e) world \<Rightarrow> 'e val promise \<times> ('s, 'e) world" where
  "entity_save P x w =
     (case db_save P x (db w) of
        (Inl e, s) \<Rightarrow> (Rejected e, logged (Call_save x) (Some e) (w\<lparr>db := s\<rparr>))
      | (Inr y, s) \<Rightarrow> (Resolved (Entity y), logged (Call_save x) None (w\<lparr>db := s\<rparr>)))"

definition entity_destroy ::
  "('s, 'e) sqldb \<Rightarrow> 'e \<Rightarrow> ('s, 'e) world \<Rightarrow> 'e val promise \<times> ('s, 'e) world" where
  "entity_destroy P x w =
     (case db_destroy P x (db w) of
        (Some e, s) \<Rightarrow> (Rejected e, logged (Call_destroy x) (Some e) (w\<lparr>db := s\<rparr>))
      | (None, s) \<Rightarrow> (Resolved Undefined, logged (Call_destroy x) None (w\<lparr>db := s\<rparr>)))"

text \<open>
  \<open>jsonpatch.apply(entity, patches, true)\<close> inside \<open>try\<close>: the invocation is recorded,
  the result is the exception caught or the entity as the library left it. With null
  for the entity there is nothing to mutate and null comes back.
\<close>

definition jsonpatch_apply ::
  "'e jsonpatch \<Rightarrow> 'e option \<Rightarrow> json \<Rightarrow> ('s, 'e) world \<Rightarrow> (err + 'e option) \<times> ('s, 'e) world" where
  "jsonpatch_apply jp entity patches w =
     (let w' = w\<lparr>applied := applied w @ [(entity, patches)]\<rparr> in
      case entity of
        Some x \<Rightarrow> (case jp_apply jp x patches of Inl e \<Rightarrow> (Inl e, w') | Inr y \<Rightarrow> (Inr (Some y), w'))
      | None \<Rightarrow> (case jp_apply_null jp patches of Some e \<Rightarrow> (Inl e, w') | None \<Rightarrow> (Inr None, w')))"

section \<open>The helpers of the controller\<close>

text \<open>\<open>statusCode = statusCode || d\<close>: a missing status and the status 0 give the default.\<close>

definition or_default :: "nat option \<Rightarrow> nat \<Rightarrow> nat" where
  "or_default statusCode d = (case statusCode of None \<Rightarrow> d | Some c \<Rightarrow> if c = 0 then d else c)"

definition respondWithResult ::
  "nat option \<Rightarrow> 'e val \<Rightarrow> ('s, 'e) world \<Rightarrow> 'e val promise \<times> ('s, 'e) world" where
  "respondWithResult statusCode entity w =
     (if truthy entity
      then (Resolved Res, res_write (or_default statusCode 200) (Json entity) w)
      else (Resolved Null, w))"

text \<open>
  \<open>entity.save()\<close> on null is a TypeError thrown inside the \<open>then\<close> callback, which
  rejects the promise of the chain.
\<close>

definition patchUpdates ::
  "'e jsonpatch \<Rightarrow> ('s, 'e) sqldb \<Rightarrow> json \<Rightarrow> 'e option \<Rightarrow> ('s, 'e) world
     \<Rightarrow> 'e val promise \<times> ('s, 'e) world" where
  "patchUpdates jp P patches entity w =
     (case jsonpatch_apply jp entity patches w of
        (Inl e, w') \<Rightarrow> (Rejected e, w')
      | (Inr None, w') \<Rightarrow> (Rejected TypeError, w')
      | (Inr (Some x), w') \<Rightarrow> entity_save P x w')"

definition removeEntity ::
  "('s, 'e) sqldb \<Rightarrow> 'e option \<Rightarrow> ('s, 'e) world \<Rightarrow> 'e val promise \<times> ('s, 'e) world" where
  "removeEntity P entity w =
     (case entity of
        Some x \<Rightarrow> promise_then (entity_destroy P x w) (\<lambda>_ w'. (Resolved Undefined, res_write 204 End w'))
      | None \<Rightarrow> (Resolved Undefined, w))"

definition handleEntityNotFound ::
  "'e option \<Rightarrow> ('s, 'e) world \<Rightarrow> 'e option promise \<times> ('s, 'e) world" where
  "handleEntityNotFound entity w =
     (case entity of
        None \<Rightarrow> (Resolved None, res_write 404 End w)
      | Some x \<Rightarrow> (Resolved (Some x), w))"

definition handleError ::
  "nat option \<Rightarrow> err \<Rightarrow> ('s, 'e) world \<Rightarrow> 'e val promise \<times> ('s, 'e) world" where
  "handleError statusCode e w =
     (Resolved Undefined, res_write (or_default statusCode 500) (Send e) w)"

text \<open>
  \<open>if (req.body.id) { Reflect.deleteProperty(req.body, 'id'); }\<close>: reading \<open>id\<close> off a
  null body is a TypeError thrown by the handler itself; an object carries the member
  or not; an array or a primitive has no such property.
\<close>

fun body_id :: "json \<Rightarrow> err + json option" where
  "body_id JNull = Inl TypeError"
| "body_id (JObj kvs) = Inr (map_of kvs ''id'')"
| "body_id _ = Inr None"

fun deleteProperty_id :: "json \<Rightarrow> json" where
  "deleteProperty_id (JObj kvs) = JObj (AList.delete ''id'' kvs)"
| "deleteProperty_id b = b"

definition strip_id :: "json \<Rightarrow> err + json" where
  "strip_id b =
     (case body_id b of
        Inl e \<Rightarrow> Inl e
      | Inr None \<Rightarrow> Inr b
      | Inr (Some v) \<Rightarrow> if truthy_json v then Inr (deleteProperty_id b) else Inr b)"

section \<open>The six handlers\<close>

definition index ::
  "('s, 'e) sqldb \<Rightarrow> request \<Rightarrow> ('s, 'e) world \<Rightarrow> 'e val promise \<times> ('s, 'e) world" where
  "index P req w =
     promise_catch (promise_then (Property_findAll P w) (respondWithResult None)) (handleError None)"

definition show_property ::
  "('s, 'e) sqldb \<Rightarrow> request \<Rightarrow> ('s, 'e) world \<Rightarrow> 'e val promise \<times> ('s, 'e) world" where
  "show_property P req w =
     promise_catch
       (promise_then (promise_then (Property_find P (params_id req) w) handleEntityNotFound)
          (\<lambda>entity. respondWithResult None (of_entity entity)))
       (handleError None)"

definition create ::
  "('s, 'e) sqldb \<Rightarrow> request \<Rightarrow> ('s, 'e) world \<Rightarrow> 'e val promise \<times> ('s, 'e) world" where
  "create P req w =
     promise_catch (promise_then (Property_create P (body req) w) (respondWithResult (Some 201)))
       (handleError None)"

text \<open>
  \<open>upsert\<close> and \<open>patch\<close> first run the \<open>if (req.body.id)\<close> statement; a TypeError there is
  thrown out of the handler (\<open>Inl\<close>) before any promise exists.
\<close>

definition upsert ::
  "('s, 'e) sqldb \<Rightarrow> request \<Rightarrow> ('s, 'e) world
     \<Rightarrow> err + ('e val promise \<times> ('s, 'e) world)" where
  "upsert P req w =
     (case strip_id (body req) of
        Inl e \<Rightarrow> Inl e
      | Inr b \<Rightarrow>
          Inr (promise_catch (promise_then (Property_upsert P b (params_id req) w) (respondWithResult None))
                 (handleError None)))"

definition patch ::
  "'e jsonpatch \<Rightarrow> ('s, 'e) sqldb \<Rightarrow> request \<Rightarrow> ('s, 'e) world
     \<Rightarrow> err + ('e val promise \<times> ('s, 'e) world)" where
  "patch jp P req w =
     (case strip_id (body req) of
        Inl e \<Rightarrow> Inl e
      | Inr b \<Rightarrow>
          Inr (promise_catch
                 (promise_then
                    (promise_then (promise_then (Property_find P (params_id req) w) handleEntityNotFound)
                       (patchUpdates jp P b))
                    (respondWithResult None))
                 (handleError None)))"

definition destroy ::
  "('s, 'e) sqldb \<Rightarrow> request \<Rightarrow> ('s, 'e) world \<Rightarrow> 'e val promise \<times> ('s, 'e) world" where
  "destroy P req w =
     promise_catch
       (promise_then (promise_then (Property_find P (params_id req) w) handleEntityNotFound)
          (removeEntity P))
       (handleError None)"

text \<open>The routes of the header comment of the controller, and the handler of each.\<close>

datatype route =
    GET_properties
  | POST_properties
  | GET_properties_id
  | PUT_properties_id
  | PATCH_properties_id
  | DELETE_properties_id

fun handle ::
  "route \<Rightarrow> 'e jsonpatch \<Rightarrow> ('s, 'e) sqldb \<Rightarrow> request \<Rightarrow> ('s, 'e) world
     \<Rightarrow> err + ('e val promise \<times> ('s, 'e) world)" where
  "handle GET_properties jp P req w = Inr (index P req w)"
| "handle POST_properties jp P req w = Inr (create P req w)"
| "handle GET_properties_id jp P req w = Inr (show_property P req w)"
| "handle PUT_properties_id jp P req w = upsert P req w"
| "handle PATCH_properties_id jp P req w = patch jp P req w"
| "handle DELETE_properties_id jp P req w = Inr (destroy P req w)"

section \<open>An in-memory store and a small patch library\<close>

text \<open>
  Modelled from the spec: a store for the data-access collaborator, which is not part
  of the sources. A row is an identifier with its other attributes (spec, section 3: "a
  unique identifier field id and an arbitrary set of additional attributes"); the store
  lists the rows by identifier. \<open>upsert\<close> is "insert-if-absent, else replace-in-place,
  keyed by a given identifier" (glossary), \<open>create\<close> generates the identifier. The
  argument \<open>flt\<close> says which calls reject, and with what.
\<close>

type_synonym row = "string \<times> (string \<times> json) list"

text \<open>
  Modelled from the spec: the fields an insert or upsert takes from the body (the store is
  not part of the sources); a body that is not an object has none. An \<open>id\<close> member that
  reaches the store is kept among the attributes, the row stays keyed as the call says.
\<close>

fun fields_of :: "json \<Rightarrow> (string \<times> json) list" where
  "fields_of (JObj kvs) = kvs"
| "fields_of _ = []"

text \<open>
  Modelled from the spec: the generated identifier of \<open>create\<close> (the store is not part
  of the sources), an identifier longer than every identifier in use.
\<close>

definition fresh_id :: "string list \<Rightarrow> string" where
  "fresh_id ks = replicate (Suc (foldr max (map length ks) 0)) (CHR ''1'')"

text \<open>
  Modelled from the spec: the six data-access calls on the in-memory store (the
  collaborator \<open>Property\<close> is not part of the sources).
\<close>

definition mem_Property :: "(row dbcall \<Rightarrow> err option) \<Rightarrow> (row list, row) sqldb" where
  "mem_Property flt =
     \<lparr>db_findAll = (\<lambda>s. case flt Call_findAll of Some e \<Rightarrow> Inl e | None \<Rightarrow> Inr s),
      db_find = (\<lambda>i s. case flt (Call_find i) of
                   Some e \<Rightarrow> Inl e
                 | None \<Rightarrow> Inr (case map_of s i of None \<Rightarrow> None | Some a \<Rightarrow> Some (i, a))),
      db_create = (\<lambda>b s. case flt (Call_create b) of
                   Some e \<Rightarrow> (Inl e, s)
                 | None \<Rightarrow> (let x = (fresh_id (map fst s), fields_of b) in (Inr x, s @ [x]))),
      db_upsert = (\<lambda>b i s. case flt (Call_upsert b i) of
                   Some e \<Rightarrow> (Inl e, s)
                 | None \<Rightarrow> (Inr (i, fields_of b), AList.update i (fields_of b) s)),
      db_save = (\<lambda>x s. case flt (Call_save x) of
                   Some e \<Rightarrow> (Inl e, s)
                 | None \<Rightarrow> (Inr x, AList.update (fst x) (snd x) s)),
      db_destroy = (\<lambda>x s. case flt (Call_destroy x) of
                   Some e \<Rightarrow> (Some e, s)
                 | None \<Rightarrow> (None, AList.delete (fst x) s))\<rparr>"

definition no_faults :: "row dbcall \<Rightarrow> err option" where
  "no_faults c = None"

text \<open>
  Modelled from the spec: a fragment of the patch library, which is not part of the
  sources: an ordered sequence of operations \<open>{op, path, value}\<close> (spec, section 6), of
  which \<open>replace\<close> and \<open>test\<close> on a top-level member \<open>/name\<close> are understood; a path to
  a member the entity does not have, a failed test and anything else throw. On null the
  empty sequence does nothing and any operation is a TypeError.
\<close>

fun patch_op :: "row \<Rightarrow> json \<Rightarrow> err + row" where
  "patch_op (i, a) (JObj m) =
     (case (map_of m ''op'', map_of m ''path'', map_of m ''value'') of
        (Some (JStr opn), Some (JStr (c # k)), Some v) \<Rightarrow>
          if c \<noteq> CHR ''/'' \<or> map_of a k = None then Inl (LibError ''OPERATION_PATH_UNRESOLVABLE'')
          else if opn = ''replace'' then Inr (i, AList.update k v a)
          else if opn = ''test'' then
            (if map_of a k = Some v then Inr (i, a) else Inl (LibError ''TEST_OPERATION_FAILED''))
          else Inl (LibError ''OPERATION_OP_INVALID'')
      | _ \<Rightarrow> Inl (LibError ''OPERATION_OP_INVALID''))"
| "patch_op x _ = Inl (LibError ''OPERATION_NOT_AN_OBJECT'')"

text \<open>
  Modelled from the spec: the operations are applied in order and the first one that
  throws ends the run (the patch library is not part of the sources).
\<close>

fun patch_ops :: "row \<Rightarrow> json list \<Rightarrow> err + row" where
  "patch_ops x [] = Inr x"
| "patch_ops x (p # ps) = (case patch_op x p of Inl e \<Rightarrow> Inl e | Inr y \<Rightarrow> patch_ops y ps)"

text \<open>
  Modelled from the spec: the patch library over rows (it is not part of the sources); a
  patch sequence that is not an array throws.
\<close>

definition mem_jsonpatch :: "row jsonpatch" where
  "mem_jsonpatch =
     \<lparr>jp_apply = (\<lambda>x patches. case patches of
                    JArr ps \<Rightarrow> patch_ops x ps
                  | _ \<Rightarrow> Inl (LibError ''SEQUENCE_NOT_AN_ARRAY'')),
      jp_apply_null = (\<lambda>patches. case patches of JArr [] \<Rightarrow> None | _ \<Rightarrow> Some TypeError)\<rparr>"

section \<open>What a run of a handler shows\<close>

text \<open>The data-access calls a handler issued, in order; nothing if it threw.\<close>

definition issued :: "err + ('a \<times> ('s, 'e) world) \<Rightarrow> 'e dbcall list option" where
  "issued r = (case r of Inl e \<Rightarrow> None | Inr (p, w) \<Rightarrow> Some (map fst (calls w)))"

text \<open>The invocations of the patch library a handler made; nothing if it threw.\<close>

definition patched_with ::
  "err + ('a \<times> ('s, 'e) world) \<Rightarrow> ('e option \<times> json) list option" where
  "patched_with r = (case r of Inl e \<Rightarrow> None | Inr (p, w) \<Rightarrow> Some (applied w))"

text \<open>A fault assignment for the in-memory store: exactly the call \<open>c\<close> rejects, with \<open>e\<close>.\<close>

definition reject_call :: "row dbcall \<Rightarrow> err \<Rightarrow> row dbcall \<Rightarrow> err option" where
  "reject_call c e d = (if d = c then Some e else None)"

section \<open>Unfolding the chain\<close>

lemmas chain_defs =
  promise_then_def promise_catch_def res_write_def logged_def
  Property_findAll_def Property_find_def Property_create_def Property_upsert_def
  entity_save_def entity_destroy_def jsonpatch_apply_def or_default_def
  respondWithResult_def patchUpdates_def removeEntity_def handleEntityNotFound_def
  handleError_def Let_def

lemmas mem_defs = mem_Property_def mem_jsonpatch_def no_faults_def reject_call_def
  request_start_def

lemma length_le_foldr_max: "k \<in> set ks \<Longrightarrow> length k \<le> foldr max (map length ks) 0"
  by (induction ks) auto

lemma fresh_id_fresh: "fresh_id ks \<notin> set ks"
proof
  assume "fresh_id ks \<in> set ks"
  then have "length (fresh_id ks) \<le> foldr max (map length ks) 0"
    by (rule length_le_foldr_max)
  then show False by (simp add: fresh_id_def)
qed

lemma no_id_after_delete: "\<not> has_id (JObj (AList.delete ''id'' kvs))"
  by (simp add: AList.delete_conv')

section \<open>The helpers\<close>

text \<open>
  C7. The handle-entity-not-found helper, applied to an absent (null) entity, writes
  404 with an empty body and returns the short-circuit value null; applied to a present
  entity, it writes nothing and returns the entity unchanged.
\<close>

theorem handleEntityNotFound_spec:
  "handleEntityNotFound None w = (Resolved None, w\<lparr>sent := sent w @ [(404, End)]\<rparr>)
   \<and> handleEntityNotFound (Some x) w = (Resolved (Some x), w)"
  by (simp add: handleEntityNotFound_def res_write_def)

section \<open>Reading: index and show\<close>

text \<open>
  C10. \<open>index\<close> on an empty store responds 200 with an empty array: the
  respond-with-result helper treats any array, the empty one included, as a present
  result, so \<open>index\<close> never responds 404, responds 200 with the collection whenever it
  is fetched, and always writes exactly one response.
\<close>

theorem index_any_array:
  "respondWithResult None (Entities es) w =
     (Resolved Res, w\<lparr>sent := sent w @ [(200, Json (Entities es))]\<rparr>)
   \<and> (db_findAll P (db w) = Inr [] \<longrightarrow>
        index P req w =
          (Resolved Res, w\<lparr>sent := sent w @ [(200, Json (Entities []))],
                            calls := calls w @ [(Call_findAll, None)]\<rparr>))
   \<and> (db_findAll P s = Inr es \<longrightarrow>
        sent (snd (index P req (request_start s))) = [(200, Json (Entities es))])
   \<and> 404 \<notin> fst ` set (sent (snd (index P req (request_start s))))
   \<and> length (sent (snd (index P req (request_start s)))) = 1"
  by (auto simp add: index_def chain_defs request_start_def split: sum.splits)

theorem index_any_array_witness:
  "db_findAll (mem_Property no_faults) (db (request_start [])) = Inr []
   \<and> index (mem_Property no_faults) \<lparr>params_id = [], body = JObj []\<rparr> (request_start []) =
       (Resolved Res,
        \<lparr>db = [], sent = [(200, Json (Entities []))], calls = [(Call_findAll, None)],
           applied = []\<rparr>)"
  using index_any_array [of "[]" "request_start []" "mem_Property no_faults"
      "\<lparr>params_id = [], body = JObj []\<rparr>" "[]"]
  by (simp add: mem_defs)

text \<open>
  C3. For every entity E present in the store (the fetch by the path parameter resolves
  to E), \<open>show\<close> responds 200 with E as the body; for every id absent from the store (the
  fetch resolves to null), \<open>show\<close> responds 404 with an empty body.
\<close>

theorem show_found_or_absent:
  "(db_find P (params_id req) (db w) = Inr (Some x) \<longrightarrow>
      show_property P req w =
        (Resolved Res, w\<lparr>sent := sent w @ [(200, Json (Entity x))],
                          calls := calls w @ [(Call_find (params_id req), None)]\<rparr>))
   \<and> (db_find P (params_id req) (db w) = Inr None \<longrightarrow>
      show_property P req w =
        (Resolved Null, w\<lparr>sent := sent w @ [(404, End)],
                           calls := calls w @ [(Call_find (params_id req), None)]\<rparr>))"
  by (simp add: show_property_def chain_defs)

theorem show_found_or_absent_witness:
  "db_find (mem_Property no_faults) ''7'' [(''7'', [(''name'', JStr ''A'')])] =
     Inr (Some (''7'', [(''name'', JStr ''A'')]))
   \<and> show_property (mem_Property no_faults) \<lparr>params_id = ''7'', body = JObj []\<rparr>
       (request_start [(''7'', [(''name'', JStr ''A'')])]) =
       (Resolved Res,
        \<lparr>db = [(''7'', [(''name'', JStr ''A'')])],
           sent = [(200, Json (Entity (''7'', [(''name'', JStr ''A'')])))],
           calls = [(Call_find ''7'', None)], applied = []\<rparr>)
   \<and> db_find (mem_Property no_faults) ''8'' [(''7'', [(''name'', JStr ''A'')])] = Inr None
   \<and> show_property (mem_Property no_faults) \<lparr>params_id = ''8'', body = JObj []\<rparr>
       (request_start [(''7'', [(''name'', JStr ''A'')])]) =
       (Resolved Null,
        \<lparr>db = [(''7'', [(''name'', JStr ''A'')])], sent = [(404, End)],
           calls = [(Call_find ''8'', None)], applied = []\<rparr>)"
  using show_found_or_absent [of "mem_Property no_faults"
      "\<lparr>params_id = ''7'', body = JObj []\<rparr>"
      "request_start [(''7'', [(''name'', JStr ''A'')])]" "(''7'', [(''name'', JStr ''A'')])"]
    show_found_or_absent [of "mem_Property no_faults"
      "\<lparr>params_id = ''8'', body = JObj []\<rparr>"
      "request_start [(''7'', [(''name'', JStr ''A'')])]"]
  by (simp add: mem_defs)

section \<open>Writing: create and patch\<close>

text \<open>
  C6. For every request body, \<open>create\<close> passes the body to the insert as it is (no
  stripping, no transformation) and, the insert resolving, responds 201 with the entity
  it resolved to; in the in-memory store that entity is the fields of the body with a
  generated, unused identifier.
\<close>

theorem create_responds_201:
  "(db_create P (body req) (db w) = (Inr x, s') \<longrightarrow>
      create P req w =
        (Resolved Res, w\<lparr>db := s', sent := sent w @ [(201, Json (Entity x))],
                          calls := calls w @ [(Call_create (body req), None)]\<rparr>))
   \<and> db_create (mem_Property no_faults) b s =
        (Inr (fresh_id (map fst s), fields_of b), s @ [(fresh_id (map fst s), fields_of b)])
   \<and> fresh_id (map fst s) \<notin> fst ` set s"
proof (intro conjI)
  show "db_create P (body req) (db w) = (Inr x, s') \<longrightarrow>
      create P req w =
        (Resolved Res, w\<lparr>db := s', sent := sent w @ [(201, Json (Entity x))],
                          calls := calls w @ [(Call_create (body req), None)]\<rparr>)"
    by (simp add: create_def chain_defs)
  show "db_create (mem_Property no_faults) b s =
        (Inr (fresh_id (map fst s), fields_of b), s @ [(fresh_id (map fst s), fields_of b)])"
    by (simp add: mem_defs Let_def)
  show "fresh_id (map fst s) \<notin> fst ` set s"
    using fresh_id_fresh [of "map fst s"] by simp
qed

theorem create_responds_201_witness:
  "db_create (mem_Property no_faults) (JObj [(''id'', JNum 5), (''name'', JStr ''A'')])
     [(''7'', [])] =
     (Inr (''11'', [(''id'', JNum 5), (''name'', JStr ''A'')]),
      [(''7'', []), (''11'', [(''id'', JNum 5), (''name'', JStr ''A'')])])
   \<and> create (mem_Property no_faults)
       \<lparr>params_id = [], body = JObj [(''id'', JNum 5), (''name'', JStr ''A'')]\<rparr>
       (request_start [(''7'', [])]) =
       (Resolved Res,
        \<lparr>db = [(''7'', []), (''11'', [(''id'', JNum 5), (''name'', JStr ''A'')])],
           sent = [(201, Json (Entity (''11'', [(''id'', JNum 5), (''name'', JStr ''A'')])))],
           calls = [(Call_create (JObj [(''id'', JNum 5), (''name'', JStr ''A'')]), None)],
           applied = []\<rparr>)"
proof -
  let ?P = "mem_Property no_faults"
  let ?req = "\<lparr>params_id = [], body = JObj [(''id'', JNum 5), (''name'', JStr ''A'')]\<rparr>"
  let ?w = "request_start [(''7'', [])] :: (row list, row) world"
  let ?x = "(''11'', [(''id'', JNum 5), (''name'', JStr ''A'')])"
  have ins: "db_create ?P (body ?req) (db ?w) = (Inr ?x, [(''7'', []), ?x])"
    by (simp add: mem_defs fresh_id_def Let_def)
  with create_responds_201 [of ?P ?req ?w ?x "[(''7'', []), ?x]" "JObj []" "[]"]
  have "create ?P ?req ?w =
      (Resolved Res, ?w\<lparr>db := [(''7'', []), ?x], sent := sent ?w @ [(201, Json (Entity ?x))],
                        calls := calls ?w @ [(Call_create (body ?req), None)]\<rparr>)"
    by blast
  with ins show ?thesis by (simp add: request_start_def)
qed

text \<open>
  C4. For every \<open>patch\<close> on an existing entity where applying the operations fails, the
  store is left as it was, no save is issued and the response is 500 with the error; where
  applying succeeds and the save resolves, the mutated entity is saved and the response is
  200 with the saved entity.
\<close>

theorem patch_apply_fails_or_saves:
  assumes "strip_id (body req) = Inr b"
    and "db_find P (params_id req) (db w) = Inr (Some x)"
  shows "(jp_apply jp x b = Inl e \<longrightarrow>
            patch jp P req w =
              Inr (Resolved Undefined,
                   w\<lparr>sent := sent w @ [(500, Send e)],
                     calls := calls w @ [(Call_find (params_id req), None)],
                     applied := applied w @ [(Some x, b)]\<rparr>))
       \<and> (jp_apply jp x b = Inr y \<and> db_save P y (db w) = (Inr z, s') \<longrightarrow>
            patch jp P req w =
              Inr (Resolved Res,
                   w\<lparr>db := s', sent := sent w @ [(200, Json (Entity z))],
                     calls := calls w @ [(Call_find (params_id req), None), (Call_save y, None)],
                     applied := applied w @ [(Some x, b)]\<rparr>))"
  using assms by (simp add: patch_def chain_defs)

theorem patch_apply_fails_or_saves_witness:
  "patch mem_jsonpatch (mem_Property no_faults)
     \<lparr>params_id = ''7'',
        body = JArr [JObj [(''op'', JStr ''replace''), (''path'', JStr ''/name''),
                           (''value'', JStr ''X'')],
                     JObj [(''op'', JStr ''test''), (''path'', JStr ''/price''),
                           (''value'', JNum 4)]]\<rparr>
     (request_start [(''7'', [(''name'', JStr ''A''), (''price'', JNum 3)])]) =
     Inr (Resolved Undefined,
          \<lparr>db = [(''7'', [(''name'', JStr ''A''), (''price'', JNum 3)])],
             sent = [(500, Send (LibError ''TEST_OPERATION_FAILED''))],
             calls = [(Call_find ''7'', None)],
             applied = [(Some (''7'', [(''name'', JStr ''A''), (''price'', JNum 3)]),
                         JArr [JObj [(''op'', JStr ''replace''), (''path'', JStr ''/name''),
                                     (''value'', JStr ''X'')],
                               JObj [(''op'', JStr ''test''), (''path'', JStr ''/price''),
                                     (''value'', JNum 4)]])]\<rparr>)
   \<and> patch mem_jsonpatch (mem_Property no_faults)
     \<lparr>params_id = ''7'',
        body = JArr [JObj [(''op'', JStr ''replace''), (''path'', JStr ''/name''),
                           (''value'', JStr ''X'')]]\<rparr>
     (request_start [(''7'', [(''name'', JStr ''A''), (''price'', JNum 3)])]) =
     Inr (Resolved Res,
          \<lparr>db = [(''7'', [(''name'', JStr ''X''), (''price'', JNum 3)])],
             sent = [(200, Json (Entity (''7'', [(''name'', JStr ''X''), (''price'', JNum 3)])))],
             calls = [(Call_find ''7'', None),
                      (Call_save (''7'', [(''name'', JStr ''X''), (''price'', JNum 3)]), None)],
             applied = [(Some (''7'', [(''name'', JStr ''A''), (''price'', JNum 3)]),
                         JArr [JObj [(''op'', JStr ''replace''), (''path'', JStr ''/name''),
                                     (''value'', JStr ''X'')]])]\<rparr>)"
proof -
  let ?s = "[(''7'', [(''name'', JStr ''A''), (''price'', JNum 3)])]"
  let ?x = "(''7'', [(''name'', JStr ''A''), (''price'', JNum 3)])"
  let ?y = "(''7'', [(''name'', JStr ''X''), (''price'', JNum 3)])"
  let ?bad = "JArr [JObj [(''op'', JStr ''replace''), (''path'', JStr ''/name''),
                           (''value'', JStr ''X'')],
                     JObj [(''op'', JStr ''test''), (''path'', JStr ''/price''),
                           (''value'', JNum 4)]]"
  let ?good = "JArr [JObj [(''op'', JStr ''replace''), (''path'', JStr ''/name''),
                           (''value'', JStr ''X'')]]"
  have found: "db_find (mem_Property no_faults) ''7'' (db (request_start ?s :: (row list, row) world)) = Inr (Some ?x)"
    by (simp add: mem_defs)
  have fails: "jp_apply mem_jsonpatch ?x ?bad = Inl (LibError ''TEST_OPERATION_FAILED'')"
    by (simp add: mem_defs)
  have works: "jp_apply mem_jsonpatch ?x ?good = Inr ?y"
    by (simp add: mem_defs)
  have saves: "db_save (mem_Property no_faults) ?y (db (request_start ?s :: (row list, row) world)) = (Inr ?y, [?y])"
    by (simp add: mem_defs)
  have a: "strip_id (body \<lparr>params_id = ''7'', body = ?bad\<rparr>) = Inr ?bad"
    by (simp add: strip_id_def)
  have b: "strip_id (body \<lparr>params_id = ''7'', body = ?good\<rparr>) = Inr ?good"
    by (simp add: strip_id_def)
  show ?thesis
    using patch_apply_fails_or_saves [of "\<lparr>params_id = ''7'', body = ?bad\<rparr>" ?bad
        "mem_Property no_faults" "request_start ?s" ?x mem_jsonpatch
        "LibError ''TEST_OPERATION_FAILED''", OF a] found fails
      patch_apply_fails_or_saves [of "\<lparr>params_id = ''7'', body = ?good\<rparr>" ?good
        "mem_Property no_faults" "request_start ?s" ?x mem_jsonpatch _ ?y ?y "[?y]", OF b]
      works saves
    by (simp add: request_start_def)
qed

section \<open>Deleting: destroy\<close>

text \<open>
  C5. For every entity present in the store, \<open>destroy\<close> deletes it (the entity's own
  \<open>destroy()\<close> is called) and responds 204 with no body, and a later \<open>show\<close> of the same
  id against the resulting store, where the fetch now finds nothing, responds 404; when
  the entity is absent, \<open>destroy\<close> responds 404 and the remove step does nothing and
  writes nothing. In the in-memory store the deleted row is indeed no longer found.
\<close>

theorem destroy_then_show:
  "(db_find P (params_id req) (db w) = Inr (Some x) \<and> db_destroy P x (db w) = (None, s') \<longrightarrow>
      destroy P req w =
        (Resolved Undefined,
         w\<lparr>db := s', sent := sent w @ [(204, End)],
           calls := calls w @ [(Call_find (params_id req), None), (Call_destroy x, None)]\<rparr>)
      \<and> (db_find P (params_id req) s' = Inr None \<longrightarrow>
           show_property P req (request_start s') =
             (Resolved Null,
              \<lparr>db = s', sent = [(404, End)], calls = [(Call_find (params_id req), None)],
                 applied = []\<rparr>)))
   \<and> (db_find P (params_id req) (db w) = Inr None \<longrightarrow>
      destroy P req w =
        (Resolved Undefined,
         w\<lparr>sent := sent w @ [(404, End)],
           calls := calls w @ [(Call_find (params_id req), None)]\<rparr>))
   \<and> removeEntity P None w = (Resolved Undefined, w)
   \<and> (map_of t i = Some a \<longrightarrow>
        db_find (mem_Property no_faults) i t = Inr (Some (i, a))
        \<and> db_destroy (mem_Property no_faults) (i, a) t = (None, AList.delete i t)
        \<and> db_find (mem_Property no_faults) i (AList.delete i t) = Inr None)"
proof (intro conjI)
  show "db_find P (params_id req) (db w) = Inr (Some x) \<and> db_destroy P x (db w) = (None, s') \<longrightarrow>
      destroy P req w =
        (Resolved Undefined,
         w\<lparr>db := s', sent := sent w @ [(204, End)],
           calls := calls w @ [(Call_find (params_id req), None), (Call_destroy x, None)]\<rparr>)
      \<and> (db_find P (params_id req) s' = Inr None \<longrightarrow>
           show_property P req (request_start s') =
             (Resolved Null,
              \<lparr>db = s', sent = [(404, End)], calls = [(Call_find (params_id req), None)],
                 applied = []\<rparr>))"
    by (simp add: destroy_def show_property_def request_start_def chain_defs)
  show "db_find P (params_id req) (db w) = Inr None \<longrightarrow>
      destroy P req w =
        (Resolved Undefined,
         w\<lparr>sent := sent w @ [(404, End)],
           calls := calls w @ [(Call_find (params_id req), None)]\<rparr>)"
    by (simp add: destroy_def chain_defs)
  show "removeEntity P None w = (Resolved Undefined, w)"
    by (simp add: removeEntity_def)
  show "map_of t i = Some a \<longrightarrow>
        db_find (mem_Property no_faults) i t = Inr (Some (i, a))
        \<and> db_destroy (mem_Property no_faults) (i, a) t = (None, AList.delete i t)
        \<and> db_find (mem_Property no_faults) i (AList.delete i t) = Inr None"
    by (simp add: mem_defs AList.delete_conv')
qed

theorem destroy_then_show_witness:
  "destroy (mem_Property no_faults) \<lparr>params_id = ''7'', body = JObj []\<rparr>
     (request_start [(''7'', [(''name'', JStr ''A'')]), (''8'', [])]) =
     (Resolved Undefined,
      \<lparr>db = [(''8'', [])], sent = [(204, End)],
         calls = [(Call_find ''7'', None), (Call_destroy (''7'', [(''name'', JStr ''A'')]), None)],
         applied = []\<rparr>)
   \<and> show_property (mem_Property no_faults) \<lparr>params_id = ''7'', body = JObj []\<rparr>
       (request_start [(''8'', [])]) =
       (Resolved Null,
        \<lparr>db = [(''8'', [])], sent = [(404, End)], calls = [(Call_find ''7'', None)],
           applied = []\<rparr>)
   \<and> destroy (mem_Property no_faults) \<lparr>params_id = ''9'', body = JObj []\<rparr>
       (request_start [(''8'', [])]) =
       (Resolved Undefined,
        \<lparr>db = [(''8'', [])], sent = [(404, End)], calls = [(Call_find ''9'', None)],
           applied = []\<rparr>)"
proof -
  let ?P = "mem_Property no_faults"
  let ?x = "(''7'', [(''name'', JStr ''A'')])"
  let ?w = "request_start [?x, (''8'', [])] :: (row list, row) world"
  let ?w' = "request_start [(''8'', [])] :: (row list, row) world"
  let ?req = "\<lparr>params_id = ''7'', body = JObj []\<rparr>"
  let ?req' = "\<lparr>params_id = ''9'', body = JObj []\<rparr>"
  have found: "db_find ?P (params_id ?req) (db ?w) = Inr (Some ?x)"
    by (simp add: mem_defs)
  have gone: "db_destroy ?P ?x (db ?w) = (None, [(''8'', [])])"
    by (simp add: mem_defs AList.delete_eq)
  have after: "db_find ?P (params_id ?req) [(''8'', [])] = Inr None"
    by (simp add: mem_defs)
  have absent: "db_find ?P (params_id ?req') (db ?w') = Inr None"
    by (simp add: mem_defs)
  from destroy_then_show [of ?P ?req ?w ?x "[(''8'', [])]" "[]" "[]"] found gone after
  have one: "destroy ?P ?req ?w =
        (Resolved Undefined,
         ?w\<lparr>db := [(''8'', [])], sent := sent ?w @ [(204, End)],
           calls := calls ?w @ [(Call_find (params_id ?req), None), (Call_destroy ?x, None)]\<rparr>)"
    and two: "show_property ?P ?req (request_start [(''8'', [])]) =
             (Resolved Null,
              \<lparr>db = [(''8'', [])], sent = [(404, End)],
                 calls = [(Call_find (params_id ?req), None)], applied = []\<rparr>)"
    by blast+
  from destroy_then_show [of ?P ?req' ?w' _ _ "[]" "[]"] absent
  have three: "destroy ?P ?req' ?w' =
        (Resolved Undefined,
         ?w'\<lparr>sent := sent ?w' @ [(404, End)],
           calls := calls ?w' @ [(Call_find (params_id ?req'), None)]\<rparr>)"
    by blast
  from one two three show ?thesis by (simp add: request_start_def)
qed

section \<open>Patching an id that does not exist\<close>

text \<open>
  C1. For a non-existent id, \<open>patch\<close> writes 404 with an empty body and then goes on:
  the patch step still runs on null and rejects, and the error handler issues a second
  write, 500 with that error. No save is issued.
\<close>

theorem patch_absent_second_write:
  "strip_id (body req) = Inr b \<Longrightarrow> db_find P (params_id req) (db w) = Inr None \<Longrightarrow>
   patch jp P req w =
     Inr (Resolved Undefined,
          w\<lparr>sent := sent w @ [(404, End),
                 (500, Send (case jp_apply_null jp b of Some e \<Rightarrow> e | None \<Rightarrow> TypeError))],
            calls := calls w @ [(Call_find (params_id req), None)],
            applied := applied w @ [(None, b)]\<rparr>)"
  by (simp add: patch_def chain_defs split: option.splits)

theorem patch_absent_second_write_witness:
  "patch mem_jsonpatch (mem_Property no_faults) \<lparr>params_id = ''7'', body = JArr []\<rparr>
     (request_start []) =
     Inr (Resolved Undefined,
          \<lparr>db = [], sent = [(404, End), (500, Send TypeError)],
             calls = [(Call_find ''7'', None)], applied = [(None, JArr [])]\<rparr>)"
proof -
  let ?req = "\<lparr>params_id = ''7'', body = JArr []\<rparr>"
  let ?w = "request_start [] :: (row list, row) world"
  have a: "strip_id (body ?req) = Inr (JArr [])"
    by (simp add: strip_id_def)
  have b: "db_find (mem_Property no_faults) (params_id ?req) (db ?w) = Inr None"
    by (simp add: mem_defs)
  from patch_absent_second_write [OF a b, of mem_jsonpatch] show ?thesis
    by (simp add: mem_defs)
qed

section \<open>The id member of the body in upsert and patch\<close>








text \<open>
  C9. In \<open>upsert\<close> and \<open>patch\<close> the \<open>id\<close> member of an object body is removed exactly when
  its value is truthy: with a falsy value (0, the empty string, false, null) the body is
  left as it is, member included, and is what the upsert call, or the patch library,
  receives.
\<close>

theorem falsy_id_retained:
  assumes "body req = JObj kvs" and "map_of kvs ''id'' = Some v"
  shows "strip_id (body req) =
           Inr (if truthy_json v then JObj (AList.delete ''id'' kvs) else body req)
     \<and> has_id (body req)
     \<and> (\<not> truthy_json v \<longrightarrow>
          issued (upsert P req (request_start s)) = Some [Call_upsert (body req) (params_id req)]
          \<and> (db_find P (params_id req) s = Inr r \<longrightarrow>
               patched_with (patch jp P req (request_start s)) = Some [(r, body req)]))"
proof -
  have strip: "strip_id (body req) =
           Inr (if truthy_json v then JObj (AList.delete ''id'' kvs) else body req)"
    using assms by (simp add: strip_id_def)
  have own: "has_id (body req)"
    using assms by simp
  have ups: "\<not> truthy_json v \<longrightarrow>
      issued (upsert P req (request_start s)) = Some [Call_upsert (body req) (params_id req)]"
    using strip
    by (simp add: issued_def upsert_def chain_defs request_start_def
        split: sum.splits prod.splits)
  have lib: "\<not> truthy_json v \<longrightarrow> db_find P (params_id req) s = Inr r \<longrightarrow>
      patched_with (patch jp P req (request_start s)) = Some [(r, body req)]"
    using strip
    by (simp add: patched_with_def patch_def chain_defs request_start_def
        split: sum.splits prod.splits option.splits)
  from strip own ups lib show ?thesis by blast
qed

theorem falsy_id_retained_witness:
  "\<not> truthy_json (JNum 0) \<and> \<not> truthy_json (JStr []) \<and> \<not> truthy_json (JBool False)
   \<and> issued (upsert (mem_Property no_faults) \<lparr>params_id = ''7'', body = JObj [(''id'', JNum 0)]\<rparr>
        (request_start [])) = Some [Call_upsert (JObj [(''id'', JNum 0)]) ''7'']
   \<and> issued (upsert (mem_Property no_faults) \<lparr>params_id = ''7'', body = JObj [(''id'', JStr [])]\<rparr>
        (request_start [])) = Some [Call_upsert (JObj [(''id'', JStr [])]) ''7'']
   \<and> issued (upsert (mem_Property no_faults)
        \<lparr>params_id = ''7'', body = JObj [(''id'', JBool False)]\<rparr>
        (request_start [])) = Some [Call_upsert (JObj [(''id'', JBool False)]) ''7'']
   \<and> patched_with (patch mem_jsonpatch (mem_Property no_faults)
        \<lparr>params_id = ''7'', body = JObj [(''id'', JBool False)]\<rparr>
        (request_start [(''7'', [])])) = Some [(Some (''7'', []), JObj [(''id'', JBool False)])]"
proof -
  let ?P = "mem_Property no_faults"
  have found: "db_find ?P ''7'' [(''7'', [])] = Inr (Some (''7'', []))"
    by (simp add: mem_defs)
  have zero: "issued (upsert ?P \<lparr>params_id = ''7'', body = JObj [(''id'', JNum 0)]\<rparr>
        (request_start [])) = Some [Call_upsert (JObj [(''id'', JNum 0)]) ''7'']"
    using falsy_id_retained [of "\<lparr>params_id = ''7'', body = JObj [(''id'', JNum 0)]\<rparr>"
        "[(''id'', JNum 0)]" "JNum 0" ?P "[]" None mem_jsonpatch]
    by simp
  have empty: "issued (upsert ?P \<lparr>params_id = ''7'', body = JObj [(''id'', JStr [])]\<rparr>
        (request_start [])) = Some [Call_upsert (JObj [(''id'', JStr [])]) ''7'']"
    using falsy_id_retained [of "\<lparr>params_id = ''7'', body = JObj [(''id'', JStr [])]\<rparr>"
        "[(''id'', JStr [])]" "JStr []" ?P "[]" None mem_jsonpatch]
    by simp
  have false: "issued (upsert ?P \<lparr>params_id = ''7'', body = JObj [(''id'', JBool False)]\<rparr>
        (request_start [])) = Some [Call_upsert (JObj [(''id'', JBool False)]) ''7'']"
    and lib: "patched_with (patch mem_jsonpatch ?P
        \<lparr>params_id = ''7'', body = JObj [(''id'', JBool False)]\<rparr>
        (request_start [(''7'', [])])) = Some [(Some (''7'', []), JObj [(''id'', JBool False)])]"
    using falsy_id_retained [of "\<lparr>params_id = ''7'', body = JObj [(''id'', JBool False)]\<rparr>"
        "[(''id'', JBool False)]" "JBool False" ?P "[]" None mem_jsonpatch]
      falsy_id_retained [of "\<lparr>params_id = ''7'', body = JObj [(''id'', JBool False)]\<rparr>"
        "[(''id'', JBool False)]" "JBool False" ?P "[(''7'', [])]" "Some (''7'', [])" mem_jsonpatch]
      found
    by simp_all
  from zero empty false lib show ?thesis by simp
qed

section \<open>Rejected data-access calls\<close>

text \<open>
  C8. For every operation, when a data-access call rejects with an error e, the
  response is the single write 500 (the default of the error handler, no operation
  passing a status of its own) with e as the body; the rejected call is the last call
  issued and is issued once: nothing is retried.
\<close>

theorem rejection_gives_500:
  "(db_findAll P (db w) = Inl e \<longrightarrow>
      index P req w =
        (Resolved Undefined,
         w\<lparr>sent := sent w @ [(500, Send e)], calls := calls w @ [(Call_findAll, Some e)]\<rparr>))
   \<and> (db_find P (params_id req) (db w) = Inl e \<longrightarrow>
      show_property P req w =
        (Resolved Undefined,
         w\<lparr>sent := sent w @ [(500, Send e)],
           calls := calls w @ [(Call_find (params_id req), Some e)]\<rparr>))
   \<and> (db_create P (body req) (db w) = (Inl e, s') \<longrightarrow>
      create P req w =
        (Resolved Undefined,
         w\<lparr>db := s', sent := sent w @ [(500, Send e)],
           calls := calls w @ [(Call_create (body req), Some e)]\<rparr>))
   \<and> (strip_id (body req) = Inr b \<and> db_upsert P b (params_id req) (db w) = (Inl e, s') \<longrightarrow>
      upsert P req w =
        Inr (Resolved Undefined,
             w\<lparr>db := s', sent := sent w @ [(500, Send e)],
               calls := calls w @ [(Call_upsert b (params_id req), Some e)]\<rparr>))
   \<and> (strip_id (body req) = Inr b \<and> db_find P (params_id req) (db w) = Inl e \<longrightarrow>
      patch jp P req w =
        Inr (Resolved Undefined,
             w\<lparr>sent := sent w @ [(500, Send e)],
               calls := calls w @ [(Call_find (params_id req), Some e)]\<rparr>))
   \<and> (strip_id (body req) = Inr b \<and> db_find P (params_id req) (db w) = Inr (Some x)
        \<and> jp_apply jp x b = Inr y \<and> db_save P y (db w) = (Inl e, s') \<longrightarrow>
      patch jp P req w =
        Inr (Resolved Undefined,
             w\<lparr>db := s', sent := sent w @ [(500, Send e)],
               calls := calls w @ [(Call_find (params_id req), None), (Call_save y, Some e)],
               applied := applied w @ [(Some x, b)]\<rparr>))
   \<and> (db_find P (params_id req) (db w) = Inl e \<longrightarrow>
      destroy P req w =
        (Resolved Undefined,
         w\<lparr>sent := sent w @ [(500, Send e)],
           calls := calls w @ [(Call_find (params_id req), Some e)]\<rparr>))
   \<and> (db_find P (params_id req) (db w) = Inr (Some x) \<and> db_destroy P x (db w) = (Some e, s') \<longrightarrow>
      destroy P req w =
        (Resolved Undefined,
         w\<lparr>db := s', sent := sent w @ [(500, Send e)],
           calls := calls w @ [(Call_find (params_id req), None), (Call_destroy x, Some e)]\<rparr>))"
proof (intro conjI)
  show "db_findAll P (db w) = Inl e \<longrightarrow>
      index P req w =
        (Resolved Undefined,
         w\<lparr>sent := sent w @ [(500, Send e)], calls := calls w @ [(Call_findAll, Some e)]\<rparr>)"
    by (simp add: index_def chain_defs)
  show "db_find P (params_id req) (db w) = Inl e \<longrightarrow>
      show_property P req w =
        (Resolved Undefined,
         w\<lparr>sent := sent w @ [(500, Send e)],
           calls := calls w @ [(Call_find (params_id req), Some e)]\<rparr>)"
    by (simp add: show_property_def chain_defs)
  show "db_create P (body req) (db w) = (Inl e, s') \<longrightarrow>
      create P req w =
        (Resolved Undefined,
         w\<lparr>db := s', sent := sent w @ [(500, Send e)],
           calls := calls w @ [(Call_create (body req), Some e)]\<rparr>)"
    by (simp add: create_def chain_defs)
  show "strip_id (body req) = Inr b \<and> db_upsert P b (params_id req) (db w) = (Inl e, s') \<longrightarrow>
      upsert P req w =
        Inr (Resolved Undefined,
             w\<lparr>db := s', sent := sent w @ [(500, Send e)],
               calls := calls w @ [(Call_upsert b (params_id req), Some e)]\<rparr>)"
    by (simp add: upsert_def chain_defs)
  show "strip_id (body req) = Inr b \<and> db_find P (params_id req) (db w) = Inl e \<longrightarrow>
      patch jp P req w =
        Inr (Resolved Undefined,
             w\<lparr>sent := sent w @ [(500, Send e)],
               calls := calls w @ [(Call_find (params_id req), Some e)]\<rparr>)"
    by (simp add: patch_def chain_defs)
  show "strip_id (body req) = Inr b \<and> db_find P (params_id req) (db w) = Inr (Some x)
        \<and> jp_apply jp x b = Inr y \<and> db_save P y (db w) = (Inl e, s') \<longrightarrow>
      patch jp P req w =
        Inr (Resolved Undefined,
             w\<lparr>db := s', sent := sent w @ [(500, Send e)],
               calls := calls w @ [(Call_find (params_id req), None), (Call_save y, Some e)],
               applied := applied w @ [(Some x, b)]\<rparr>)"
    by (simp add: patch_def chain_defs)
  show "db_find P (params_id req) (db w) = Inl e \<longrightarrow>
      destroy P req w =
        (Resolved Undefined,
         w\<lparr>sent := sent w @ [(500, Send e)],
           calls := calls w @ [(Call_find (params_id req), Some e)]\<rparr>)"
    by (simp add: destroy_def chain_defs)
  show "db_find P (params_id req) (db w) = Inr (Some x) \<and> db_destroy P x (db w) = (Some e, s') \<longrightarrow>
      destroy P req w =
        (Resolved Undefined,
         w\<lparr>db := s', sent := sent w @ [(500, Send e)],
           calls := calls w @ [(Call_find (params_id req), None), (Call_destroy x, Some e)]\<rparr>)"
    by (simp add: destroy_def chain_defs)
qed

theorem rejection_gives_500_witness:
  "index (mem_Property (reject_call Call_findAll (LibError ''down'')))
     \<lparr>params_id = [], body = JObj []\<rparr> (request_start [(''7'', [])]) =
     (Resolved Undefined,
      \<lparr>db = [(''7'', [])], sent = [(500, Send (LibError ''down''))],
         calls = [(Call_findAll, Some (LibError ''down''))], applied = []\<rparr>)
   \<and> show_property (mem_Property (reject_call (Call_find ''7'') (LibError ''down'')))
     \<lparr>params_id = ''7'', body = JObj []\<rparr> (request_start [(''7'', [])]) =
     (Resolved Undefined,
      \<lparr>db = [(''7'', [])], sent = [(500, Send (LibError ''down''))],
         calls = [(Call_find ''7'', Some (LibError ''down''))], applied = []\<rparr>)
   \<and> create (mem_Property (reject_call (Call_create (JObj [])) (LibError ''down'')))
     \<lparr>params_id = [], body = JObj []\<rparr> (request_start [(''7'', [])]) =
     (Resolved Undefined,
      \<lparr>db = [(''7'', [])], sent = [(500, Send (LibError ''down''))],
         calls = [(Call_create (JObj []), Some (LibError ''down''))], applied = []\<rparr>)
   \<and> upsert (mem_Property (reject_call (Call_upsert (JObj []) ''7'') (LibError ''down'')))
     \<lparr>params_id = ''7'', body = JObj [(''id'', JNum 5)]\<rparr> (request_start [(''7'', [])]) =
     Inr (Resolved Undefined,
      \<lparr>db = [(''7'', [])], sent = [(500, Send (LibError ''down''))],
         calls = [(Call_upsert (JObj []) ''7'', Some (LibError ''down''))], applied = []\<rparr>)
   \<and> patch mem_jsonpatch (mem_Property (reject_call (Call_find ''7'') (LibError ''down'')))
     \<lparr>params_id = ''7'', body = JArr []\<rparr> (request_start [(''7'', [])]) =
     Inr (Resolved Undefined,
      \<lparr>db = [(''7'', [])], sent = [(500, Send (LibError ''down''))],
         calls = [(Call_find ''7'', Some (LibError ''down''))], applied = []\<rparr>)
   \<and> patch mem_jsonpatch
       (mem_Property (reject_call (Call_save (''7'', [(''name'', JStr ''X'')])) (LibError ''busy'')))
       \<lparr>params_id = ''7'',
          body = JArr [JObj [(''op'', JStr ''replace''), (''path'', JStr ''/name''),
                             (''value'', JStr ''X'')]]\<rparr>
       (request_start [(''7'', [(''name'', JStr ''A'')])]) =
       Inr (Resolved Undefined,
            \<lparr>db = [(''7'', [(''name'', JStr ''A'')])], sent = [(500, Send (LibError ''busy''))],
               calls = [(Call_find ''7'', None),
                        (Call_save (''7'', [(''name'', JStr ''X'')]), Some (LibError ''busy''))],
               applied = [(Some (''7'', [(''name'', JStr ''A'')]),
                           JArr [JObj [(''op'', JStr ''replace''), (''path'', JStr ''/name''),
                                       (''value'', JStr ''X'')]])]\<rparr>)
   \<and> destroy (mem_Property (reject_call (Call_find ''7'') (LibError ''down'')))
     \<lparr>params_id = ''7'', body = JObj []\<rparr> (request_start [(''7'', [])]) =
     (Resolved Undefined,
      \<lparr>db = [(''7'', [])], sent = [(500, Send (LibError ''down''))],
         calls = [(Call_find ''7'', Some (LibError ''down''))], applied = []\<rparr>)
   \<and> destroy (mem_Property (reject_call (Call_destroy (''7'', [])) (LibError ''busy'')))
     \<lparr>params_id = ''7'', body = JObj []\<rparr> (request_start [(''7'', [])]) =
     (Resolved Undefined,
      \<lparr>db = [(''7'', [])], sent = [(500, Send (LibError ''busy''))],
         calls = [(Call_find ''7'', None), (Call_destroy (''7'', []), Some (LibError ''busy''))],
         applied = []\<rparr>)"
proof -
  let ?down = "LibError ''down''"
  let ?busy = "LibError ''busy''"
  let ?s = "[(''7'', [])] :: row list"
  let ?w = "request_start ?s :: (row list, row) world"
  let ?r0 = "\<lparr>params_id = [], body = JObj []\<rparr>"
  let ?r7 = "\<lparr>params_id = ''7'', body = JObj []\<rparr>"
  let ?ru = "\<lparr>params_id = ''7'', body = JObj [(''id'', JNum 5)]\<rparr>"
  let ?rp = "\<lparr>params_id = ''7'', body = JArr []\<rparr>"
  let ?ops = "JArr [JObj [(''op'', JStr ''replace''), (''path'', JStr ''/name''),
                             (''value'', JStr ''X'')]]"
  let ?rs = "\<lparr>params_id = ''7'', body = ?ops\<rparr>"
  let ?x = "(''7'', [(''name'', JStr ''A'')]) :: row"
  let ?y = "(''7'', [(''name'', JStr ''X'')]) :: row"
  let ?ws = "request_start [?x] :: (row list, row) world"
  let ?Pall = "mem_Property (reject_call Call_findAll ?down)"
  let ?Pfind = "mem_Property (reject_call (Call_find ''7'') ?down)"
  let ?Pcreate = "mem_Property (reject_call (Call_create (JObj [])) ?down)"
  let ?Pupsert = "mem_Property (reject_call (Call_upsert (JObj []) ''7'') ?down)"
  let ?Psave = "mem_Property (reject_call (Call_save ?y) ?busy)"
  let ?Pdestroy = "mem_Property (reject_call (Call_destroy (''7'', [])) ?busy)"
  have h1: "db_findAll ?Pall (db ?w) = Inl ?down"
    by (simp add: mem_defs)
  have h2: "db_find ?Pfind (params_id ?r7) (db ?w) = Inl ?down"
    by (simp add: mem_defs)
  have h3: "db_create ?Pcreate (body ?r0) (db ?w) = (Inl ?down, ?s)"
    by (simp add: mem_defs)
  have h4: "strip_id (body ?ru) = Inr (JObj [])
      \<and> db_upsert ?Pupsert (JObj []) (params_id ?ru) (db ?w) = (Inl ?down, ?s)"
    by (simp add: mem_defs strip_id_def AList.delete_eq)
  have h5: "strip_id (body ?rp) = Inr (JArr []) \<and> db_find ?Pfind (params_id ?rp) (db ?w) = Inl ?down"
    by (simp add: mem_defs strip_id_def)
  have h6: "strip_id (body ?rs) = Inr ?ops \<and> db_find ?Psave (params_id ?rs) (db ?ws) = Inr (Some ?x)
      \<and> jp_apply mem_jsonpatch ?x ?ops = Inr ?y \<and> db_save ?Psave ?y (db ?ws) = (Inl ?busy, [?x])"
    by (simp add: mem_defs strip_id_def)
  have h8: "db_find ?Pdestroy (params_id ?r7) (db ?w) = Inr (Some (''7'', []))
      \<and> db_destroy ?Pdestroy (''7'', []) (db ?w) = (Some ?busy, ?s)"
    by (simp add: mem_defs)
  have c1: "index ?Pall ?r0 ?w =
      (Resolved Undefined,
       ?w\<lparr>sent := sent ?w @ [(500, Send ?down)], calls := calls ?w @ [(Call_findAll, Some ?down)]\<rparr>)"
    using rejection_gives_500 [of ?Pall ?w ?down ?r0] h1 by blast
  have c2: "show_property ?Pfind ?r7 ?w =
      (Resolved Undefined,
       ?w\<lparr>sent := sent ?w @ [(500, Send ?down)],
          calls := calls ?w @ [(Call_find (params_id ?r7), Some ?down)]\<rparr>)"
    using rejection_gives_500 [of ?Pfind ?w ?down ?r7] h2 by blast
  have c3: "create ?Pcreate ?r0 ?w =
      (Resolved Undefined,
       ?w\<lparr>db := ?s, sent := sent ?w @ [(500, Send ?down)],
          calls := calls ?w @ [(Call_create (body ?r0), Some ?down)]\<rparr>)"
    using rejection_gives_500 [of ?Pcreate ?w ?down ?r0 ?s] h3 by blast
  have c4: "upsert ?Pupsert ?ru ?w =
      Inr (Resolved Undefined,
       ?w\<lparr>db := ?s, sent := sent ?w @ [(500, Send ?down)],
          calls := calls ?w @ [(Call_upsert (JObj []) (params_id ?ru), Some ?down)]\<rparr>)"
    using rejection_gives_500 [of ?Pupsert ?w ?down ?ru ?s "JObj []"] h4 by blast
  have c5: "patch mem_jsonpatch ?Pfind ?rp ?w =
      Inr (Resolved Undefined,
       ?w\<lparr>sent := sent ?w @ [(500, Send ?down)],
          calls := calls ?w @ [(Call_find (params_id ?rp), Some ?down)]\<rparr>)"
    using rejection_gives_500 [of ?Pfind ?w ?down ?rp _ "JArr []" mem_jsonpatch] h5 by blast
  have c6: "patch mem_jsonpatch ?Psave ?rs ?ws =
      Inr (Resolved Undefined,
       ?ws\<lparr>db := [?x], sent := sent ?ws @ [(500, Send ?busy)],
          calls := calls ?ws @ [(Call_find (params_id ?rs), None), (Call_save ?y, Some ?busy)],
          applied := applied ?ws @ [(Some ?x, ?ops)]\<rparr>)"
    using rejection_gives_500 [of ?Psave ?ws ?busy ?rs "[?x]" ?ops mem_jsonpatch ?x ?y] h6 by blast
  have c7: "destroy ?Pfind ?r7 ?w =
      (Resolved Undefined,
       ?w\<lparr>sent := sent ?w @ [(500, Send ?down)],
          calls := calls ?w @ [(Call_find (params_id ?r7), Some ?down)]\<rparr>)"
    using rejection_gives_500 [of ?Pfind ?w ?down ?r7] h2 by blast
  have c8: "destroy ?Pdestroy ?r7 ?w =
      (Resolved Undefined,
       ?w\<lparr>db := ?s, sent := sent ?w @ [(500, Send ?busy)],
          calls := calls ?w @ [(Call_find (params_id ?r7), None),
                               (Call_destroy (''7'', []), Some ?busy)]\<rparr>)"
    using rejection_gives_500 [of ?Pdestroy ?w ?busy ?r7 ?s _ _ "(''7'', [])"] h8 by blast
  from c1 c2 c3 c4 c5 c6 c7 c8 show ?thesis
    by (simp add: request_start_def)
qed

end
